theory Spec2Isabelle
  imports Complex_Main
begin

section \<open>JavaScript values\<close>

text \<open>
  The values that flow through the test engine (step fields, HTTP responses, the test
  context) are dynamically typed. \<open>JObj\<close> lists the own enumerable properties of a plain
  object in the order of \<^verbatim>\<open>Object.entries\<close>; \<open>JFun\<close> is a function value, known by its
  name only. Numbers are restricted to integers.
\<close>

datatype jsv =
    JUndefined
  | JNull
  | JBool bool
  | JNum int
  | JStr string
  | JArr "jsv list"
  | JObj "(string \<times> jsv) list"
  | JFun string

type_synonym obj = "(string \<times> jsv) list"

text \<open>
  A thrown value: \<open>Error m\<close> is \<^verbatim>\<open>new Error(m)\<close> created by the code under study,
  \<open>Foreign m x\<close> an exception object of a collaborator (HTTP client, browser) with
  message \<open>m\<close> and opaque identity \<open>x\<close>.
\<close>

datatype 'x js_error = Error string | Foreign string 'x

fun message :: "'x js_error \<Rightarrow> string" where
  "message (Error m) = m"
| "message (Foreign m x) = m"

text \<open>Truthiness, as tested by \<^verbatim>\<open>if (v)\<close>, \<^verbatim>\<open>!v\<close>, \<^verbatim>\<open>a || b\<close> and \<^verbatim>\<open>a && b\<close>.\<close>

fun truthy :: "jsv \<Rightarrow> bool" where
  "truthy JUndefined = False"
| "truthy JNull = False"
| "truthy (JBool b) = b"
| "truthy (JNum n) = (n \<noteq> 0)"
| "truthy (JStr s) = (s \<noteq> [])"
| "truthy (JArr xs) = True"
| "truthy (JObj kvs) = True"
| "truthy (JFun f) = True"

definition or_else :: "jsv \<Rightarrow> jsv \<Rightarrow> jsv" where
  "or_else a b = (if truthy a then a else b)"

text \<open>Decimal rendering of numbers, as template literals and \<^verbatim>\<open>String(n)\<close> produce it.\<close>

fun show_nat :: "nat \<Rightarrow> string" where
  "show_nat n =
     (if n < 10 then [''0123456789'' ! n]
      else show_nat (n div 10) @ [''0123456789'' ! (n mod 10)])"

definition show_int :: "int \<Rightarrow> string" where
  "show_int i = (if i < 0 then CHR ''-'' # show_nat (nat (- i)) else show_nat (nat i))"

fun join :: "string \<Rightarrow> string list \<Rightarrow> string" where
  "join sep [] = []"
| "join sep [x] = x"
| "join sep (x # y # ys) = x @ sep @ join sep (y # ys)"

text \<open>
  \<^verbatim>\<open>String(v)\<close>, the conversion applied by template literals and by
  \<^verbatim>\<open>String.prototype.replace\<close> to the value its callback returns. A plain object
  renders as \<^verbatim>\<open>[object Object]\<close>, an array as its elements joined by commas (with
  \<^verbatim>\<open>null\<close> and \<^verbatim>\<open>undefined\<close> elements empty), a built-in function as its
  native-code source text.
\<close>

fun to_string :: "jsv \<Rightarrow> string" where
  "to_string JUndefined = ''undefined''"
| "to_string JNull = ''null''"
| "to_string (JBool b) = (if b then ''true'' else ''false'')"
| "to_string (JNum n) = show_int n"
| "to_string (JStr s) = s"
| "to_string (JArr xs) =
     join '','' (map (\<lambda>x. if x = JUndefined \<or> x = JNull then [] else to_string x) xs)"
| "to_string (JObj kvs) = ''[object Object]''"
| "to_string (JFun f) = ''function '' @ f @ ''() { [native code] }''"

text \<open>
  Strict equality \<^verbatim>\<open>===\<close>. Primitives compare by type and value. Values of reference
  type (objects, arrays, functions) compare by identity; every use below compares a
  value taken from a step definition with a value taken from a response or from the
  page, which are never the same object, so the comparison is false for them.
\<close>

fun is_primitive :: "jsv \<Rightarrow> bool" where
  "is_primitive (JArr xs) = False"
| "is_primitive (JObj kvs) = False"
| "is_primitive (JFun f) = False"
| "is_primitive v = True"

definition strict_equals :: "jsv \<Rightarrow> jsv \<Rightarrow> bool" where
  "strict_equals a b = (is_primitive a \<and> a = b)"

text \<open>
  Property access \<^verbatim>\<open>v[k]\<close> on a value that is neither \<^verbatim>\<open>null\<close> nor
  \<^verbatim>\<open>undefined\<close>: an own property if there is one, otherwise whatever the value
  inherits through its prototype chain. The inherited members belong to the JavaScript
  runtime; they are the parameter \<open>inh\<close>, which yields \<open>JUndefined\<close> where nothing is
  inherited under the name.
\<close>

type_synonym inherited = "jsv \<Rightarrow> string \<Rightarrow> jsv"

fun set_prop :: "(string \<times> 'a) list \<Rightarrow> string \<Rightarrow> 'a \<Rightarrow> (string \<times> 'a) list" where
  "set_prop [] k v = [(k, v)]"
| "set_prop ((k', v') # kvs) k v =
     (if k' = k then (k, v) # kvs else (k', v') # set_prop kvs k v)"

text \<open>
  Own properties: the entries of an object; the elements of an array and the characters
  of a string under their canonical index, and their \<^verbatim>\<open>length\<close>.
\<close>

definition index_of :: "string \<Rightarrow> nat \<Rightarrow> nat option" where
  "index_of k n = (case filter (\<lambda>i. show_nat i = k) [0..<n] of [] \<Rightarrow> None | i # _ \<Rightarrow> Some i)"

fun own_prop :: "jsv \<Rightarrow> string \<Rightarrow> jsv option" where
  "own_prop (JObj kvs) k = map_of kvs k"
| "own_prop (JArr xs) k =
     (if k = ''length'' then Some (JNum (int (length xs)))
      else map_option (\<lambda>i. xs ! i) (index_of k (length xs)))"
| "own_prop (JStr s) k =
     (if k = ''length'' then Some (JNum (int (length s)))
      else map_option (\<lambda>i. JStr [s ! i]) (index_of k (length s)))"
| "own_prop v k = None"

definition get_prop :: "inherited \<Rightarrow> jsv \<Rightarrow> string \<Rightarrow> jsv" where
  "get_prop inh v k = (case own_prop v k of Some x \<Rightarrow> x | None \<Rightarrow> inh v k)"

section \<open>The API tester: interpolation\<close>

text \<open>
  \<^verbatim>\<open>obj.replace(/\{\{(\w+)\}\}/g, (match, key) => ...)\<close>. The class \<^verbatim>\<open>\w\<close> is
  \<^verbatim>\<open>[A-Za-z0-9_]\<close>. \<open>match_placeholder\<close> is the pattern anchored at the head of the
  string: it yields the captured key and the text after the match. The quantifier is
  greedy, and a shorter key can never be followed by a brace, so only the longest run of
  word characters is tried.
\<close>

definition is_word_char :: "char \<Rightarrow> bool" where
  "is_word_char c =
     (c \<in> set ''abcdefghijklmnopqrstuvwxyzABCDEFGHIJKLMNOPQRSTUVWXYZ0123456789_'')"

definition match_placeholder :: "string \<Rightarrow> (string \<times> string) option" where
  "match_placeholder s =
     (if take 2 s = ''{{'' then
        (let key = takeWhile is_word_char (drop 2 s);
             rest = dropWhile is_word_char (drop 2 s)
         in if key \<noteq> [] \<and> take 2 rest = ''}}'' then Some (key, drop 2 rest) else None)
      else None)"

lemma match_placeholder_shorter:
  "match_placeholder s = Some (key, rest) \<Longrightarrow> length rest < length s"
proof -
  assume m: "match_placeholder s = Some (key, rest)"
  have "length (dropWhile is_word_char (drop 2 s)) \<le> length (drop 2 s)"
    by (rule length_dropWhile_le)
  moreover from m have "take 2 s = ''{{''" and "rest = drop 2 (dropWhile is_word_char (drop 2 s))"
    by (auto simp: match_placeholder_def Let_def split: if_splits)
  moreover from \<open>take 2 s = ''{{''\<close> have "2 \<le> length s"
    by (cases s; cases "tl s") auto
  ultimately show ?thesis by simp
qed

text \<open>
  The global replace: scan from the left; at a match, emit what the callback returns for
  \<open>(match, key)\<close> and continue after the match; otherwise copy one character.
\<close>

function replace_placeholders :: "(string \<Rightarrow> string \<Rightarrow> string) \<Rightarrow> string \<Rightarrow> string" where
  "replace_placeholders f [] = []"
| "replace_placeholders f (c # cs) =
     (case match_placeholder (c # cs) of
        Some (key, rest) \<Rightarrow> f (''{{'' @ key @ ''}}'') key @ replace_placeholders f rest
      | None \<Rightarrow> c # replace_placeholders f cs)"
  by pat_completeness auto
termination
  by (relation "measure (\<lambda>(f, s). length s)") (auto dest: match_placeholder_shorter)

text \<open>
  \<^verbatim>\<open>interpolateVariables(obj, context)\<close>. The callback returns \<^verbatim>\<open>context[key]\<close> when
  that is not \<^verbatim>\<open>undefined\<close> (\<^verbatim>\<open>replace\<close> converts it to a string) and the match
  itself otherwise. An array is mapped; a non-null object is rebuilt entry by entry into
  a fresh object; any other value is returned as it is.
\<close>

definition replacer :: "inherited \<Rightarrow> obj \<Rightarrow> string \<Rightarrow> string \<Rightarrow> string" where
  "replacer inh context m key =
     (if get_prop inh (JObj context) key \<noteq> JUndefined
      then to_string (get_prop inh (JObj context) key) else m)"

fun interpolateVariables :: "inherited \<Rightarrow> jsv \<Rightarrow> obj \<Rightarrow> jsv" where
  "interpolateVariables inh (JStr s) context =
     JStr (replace_placeholders (replacer inh context) s)"
| "interpolateVariables inh (JArr xs) context =
     JArr (map (\<lambda>item. interpolateVariables inh item context) xs)"
| "interpolateVariables inh (JObj kvs) context =
     JObj (fold (\<lambda>kv result. set_prop result (fst kv) (interpolateVariables inh (snd kv) context))
             kvs [])"
| "interpolateVariables inh v context = v"

text \<open>
  Notions used to state what interpolation does: the text of a placeholder, what counts
  as an identifier, and whether a placeholder occurs somewhere in a string.
\<close>

definition placeholder :: "string \<Rightarrow> string" where
  "placeholder key = ''{{'' @ key @ ''}}''"

definition is_identifier :: "string \<Rightarrow> bool" where
  "is_identifier key = (key \<noteq> [] \<and> list_all is_word_char key)"

fun contains_placeholder :: "string \<Rightarrow> bool" where
  "contains_placeholder [] = False"
| "contains_placeholder (c # cs) =
     (match_placeholder (c # cs) \<noteq> None \<or> contains_placeholder cs)"


section \<open>The API tester: interpolation on a heap\<close>

text \<open>
  To speak about copies and about the input being left alone, the same function is also
  given where arrays and objects live in the cells of a heap and a value is a primitive
  or a reference to a cell. \<^verbatim>\<open>obj.map(...)\<close> and \<^verbatim>\<open>const result = {}\<close> allocate a
  fresh cell; each element that \<^verbatim>\<open>map\<close> stores and each \<^verbatim>\<open>result[key] = ...\<close>
  updates that cell in place. The first argument bounds the depth of the recursion, as
  the call stack does: \<open>None\<close> is a call that fails because the bound is exceeded (as
  it is for a cyclic value) or because a reference dangles.
\<close>

datatype hvalue = HUndefined | HNull | HBool bool | HNum int | HStr string | HFun string | HRef nat

datatype cell = ObjectCell "(string \<times> hvalue) list" | ArrayCell "hvalue list"

type_synonym heap = "cell list"

fun push_item :: "cell \<Rightarrow> hvalue \<Rightarrow> cell" where
  "push_item (ArrayCell items) x = ArrayCell (items @ [x])"
| "push_item (ObjectCell entries) x = ObjectCell entries"

fun store_entry :: "cell \<Rightarrow> string \<Rightarrow> hvalue \<Rightarrow> cell" where
  "store_entry (ObjectCell entries) k x = ObjectCell (set_prop entries k x)"
| "store_entry (ArrayCell items) k x = ArrayCell items"

fun map_into :: "(hvalue \<Rightarrow> heap \<Rightarrow> (hvalue \<times> heap) option) \<Rightarrow> nat \<Rightarrow> hvalue list \<Rightarrow> heap \<Rightarrow> heap option" where
  "map_into call r [] h = Some h"
| "map_into call r (item # items) h =
     (case call item h of
        None \<Rightarrow> None
      | Some (x, h1) \<Rightarrow> map_into call r items (h1[r := push_item (h1 ! r) x]))"

fun assign_into ::
  "(hvalue \<Rightarrow> heap \<Rightarrow> (hvalue \<times> heap) option) \<Rightarrow> nat \<Rightarrow> (string \<times> hvalue) list \<Rightarrow> heap \<Rightarrow> heap option" where
  "assign_into call r [] h = Some h"
| "assign_into call r (kv # entries) h =
     (case call (snd kv) h of
        None \<Rightarrow> None
      | Some (x, h1) \<Rightarrow> assign_into call r entries (h1[r := store_entry (h1 ! r) (fst kv) x]))"

primrec interpolate_heap :: "nat \<Rightarrow> inherited \<Rightarrow> obj \<Rightarrow> hvalue \<Rightarrow> heap \<Rightarrow> (hvalue \<times> heap) option" where
  "interpolate_heap 0 inh context = (\<lambda>v h. None)"
| "interpolate_heap (Suc n) inh context =
     (\<lambda>v h. case v of
        HStr s \<Rightarrow> Some (HStr (replace_placeholders (replacer inh context) s), h)
      | HRef a \<Rightarrow>
          (if a < length h then
             (case h ! a of
                ArrayCell items \<Rightarrow>
                  map_option (Pair (HRef (length h)))
                    (map_into (interpolate_heap n inh context) (length h) items (h @ [ArrayCell []]))
              | ObjectCell entries \<Rightarrow>
                  map_option (Pair (HRef (length h)))
                    (assign_into (interpolate_heap n inh context) (length h) entries
                       (h @ [ObjectCell []])))
           else None)
      | _ \<Rightarrow> Some (v, h))"



fun all_entries :: "(hvalue \<Rightarrow> jsv option) \<Rightarrow> (string \<times> hvalue) list \<Rightarrow> obj option" where
  "all_entries read [] = Some []"
| "all_entries read (kv # entries) =
     (case read (snd kv) of
        None \<Rightarrow> None
      | Some t \<Rightarrow> map_option ((#) (fst kv, t)) (all_entries read entries))"





section \<open>The API tester: collaborators, configuration and steps\<close>

text \<open>
  The collaborators of \<^verbatim>\<open>APITester\<close>, over an abstract world \<open>'w\<close>: the clock, the
  HTTP adapter behind the axios instance (a transport failure is \<open>Inl\<close>, any received
  response is \<open>Inr\<close>), the timer behind \<^verbatim>\<open>wait\<close>, the Joi validator (the message of
  the violation, if any), the members inherited through prototypes, and the relational
  comparison \<^verbatim>\<open>a > b\<close> of the runtime. Logging is not modelled.
\<close>

record ('w, 'x) api_env =
  date_now :: "'w \<Rightarrow> int"
  toISOString :: "int \<Rightarrow> string"
  adapter :: "obj \<Rightarrow> 'w \<Rightarrow> ('x js_error + obj) \<times> 'w"
  setTimeout :: "jsv \<Rightarrow> 'w \<Rightarrow> 'w"
  validateAsync :: "jsv \<Rightarrow> jsv \<Rightarrow> string option"
  inherit :: inherited
  greater :: "jsv \<Rightarrow> jsv \<Rightarrow> bool"

text \<open>\<^verbatim>\<open>this.config\<close> after the constructor has merged the defaults.\<close>

record api_config =
  timeout :: int
  retries :: nat
  validateSchema :: bool
  captureHeaders :: bool
  captureBody :: bool

definition default_config :: api_config where
  "default_config =
     \<lparr>timeout = 30000, retries = 3, validateSchema = True, captureHeaders = True,
      captureBody = True\<rparr>"

text \<open>
  A step of an API test. A field the step does not carry reads as \<open>JUndefined\<close>. The two
  function-valued fields are \<open>None\<close> when the field is absent or not a function; a handler
  receives the test context, which it may update.
\<close>

record ('w, 'x) assertion =
  a_target :: jsv
  a_type :: jsv
  a_expected :: jsv
  a_header :: jsv
  a_path :: jsv
  a_schema :: jsv
  a_maxDuration :: jsv
  a_validator :: "(jsv \<Rightarrow> obj \<Rightarrow> 'w \<Rightarrow> ('x js_error + jsv) \<times> obj \<times> 'w) option"

record ('w, 'x) api_step =
  s_name :: jsv
  s_type :: jsv
  s_method :: jsv
  s_url :: jsv
  s_headers :: jsv
  s_data :: jsv
  s_params :: jsv
  s_options :: jsv
  s_responseSchema :: jsv
  s_saveAs :: jsv
  s_duration :: jsv
  s_continueOnFailure :: jsv
  s_handler :: "(obj \<Rightarrow> 'w \<Rightarrow> ('x js_error + unit) \<times> obj \<times> 'w) option"
  s_assertion :: "('w, 'x) assertion option"

record ('w, 'x) api_test =
  t_id :: jsv
  t_name :: jsv
  t_steps :: "('w, 'x) api_step list option"

text \<open>The own enumerable properties that object spread \<^verbatim>\<open>{...v}\<close> copies.\<close>

fun spread :: "jsv \<Rightarrow> obj" where
  "spread (JObj kvs) = kvs"
| "spread (JArr xs) = map (\<lambda>i. (show_nat i, xs ! i)) [0..<length xs]"
| "spread (JStr s) = map (\<lambda>i. (show_nat i, JStr [s ! i])) [0..<length s]"
| "spread v = []"

definition assign_all :: "obj \<Rightarrow> obj \<Rightarrow> obj" where
  "assign_all result kvs = fold (\<lambda>kv r. set_prop r (fst kv) (snd kv)) kvs result"

text \<open>Reading a member throws a \<^verbatim>\<open>TypeError\<close> on \<^verbatim>\<open>null\<close> and \<^verbatim>\<open>undefined\<close>.\<close>

definition read_member :: "inherited \<Rightarrow> jsv \<Rightarrow> string \<Rightarrow> 'x js_error + jsv" where
  "read_member inh v k =
     (if v = JUndefined \<or> v = JNull
      then Inl (Error (''Cannot read properties of '' @ to_string v @ '' (reading '' @ [CHR 0x27]
                        @ k @ [CHR 0x27] @ '')''))
      else Inr (get_prop inh v k))"

section \<open>The API tester: the HTTP client\<close>

text \<open>
  The axios instance is created with \<^verbatim>\<open>validateStatus: () => true\<close>
  (\<^verbatim>\<open>// Don't throw on HTTP error status\<close>): axios rejects a received response only when
  this predicate refuses its status. The request interceptor stamps the start time, the
  response interceptor attaches \<^verbatim>\<open>metadata.duration\<close>; the error interceptor passes the
  error on.
\<close>

definition validateStatus :: "jsv \<Rightarrow> bool" where
  "validateStatus status = True"

definition client :: "('w, 'x) api_env \<Rightarrow> obj \<Rightarrow> 'w \<Rightarrow> ('x js_error + obj) \<times> 'w" where
  "client env config w =
     (let startTime = date_now env w;
          config' = set_prop config ''metadata'' (JObj [(''startTime'', JNum startTime)])
      in case adapter env config' w of
           (Inl error, w') \<Rightarrow> (Inl error, w')
         | (Inr response, w') \<Rightarrow>
             if validateStatus (get_prop (inherit env) (JObj response) ''status'')
             then (Inr (set_prop response ''metadata''
                          (JObj [(''duration'', JNum (date_now env w' - startTime))])), w')
             else (Inl (Error (''Request failed with status code ''
                          @ to_string (get_prop (inherit env) (JObj response) ''status''))), w'))"

definition validateResponseSchema :: "('w, 'x) api_env \<Rightarrow> jsv \<Rightarrow> jsv \<Rightarrow> 'x js_error + unit" where
  "validateResponseSchema env data sch =
     (case validateAsync env sch data of
        None \<Rightarrow> Inr ()
      | Some m \<Rightarrow> Inl (Error (''Schema validation failed: '' @ m)))"

section \<open>The API tester: makeRequest\<close>

definition request_config :: "inherited \<Rightarrow> ('w, 'x) api_step \<Rightarrow> obj \<Rightarrow> obj" where
  "request_config inh step testContext =
     assign_all
       [(''method'', or_else (s_method step) (JStr ''GET'')),
        (''url'', interpolateVariables inh (s_url step) testContext),
        (''headers'', interpolateVariables inh (or_else (s_headers step) (JObj [])) testContext),
        (''data'', interpolateVariables inh (s_data step) testContext),
        (''params'', interpolateVariables inh (s_params step) testContext)]
       (spread (s_options step))"

text \<open>The body of the \<^verbatim>\<open>try\<close> block: one call of the client, then the schema check.\<close>

definition attempt_request ::
  "('w, 'x) api_env \<Rightarrow> api_config \<Rightarrow> ('w, 'x) api_step \<Rightarrow> obj \<Rightarrow> 'w \<Rightarrow> ('x js_error + obj) \<times> 'w" where
  "attempt_request env cfg step config w =
     (case client env config w of
        (Inl error, w') \<Rightarrow> (Inl error, w')
      | (Inr response, w') \<Rightarrow>
          if truthy (s_responseSchema step) \<and> validateSchema cfg then
            (case validateResponseSchema env (get_prop (inherit env) (JObj response) ''data'')
                    (s_responseSchema step) of
               Inl error \<Rightarrow> (Inl error, w')
             | Inr u \<Rightarrow> (Inr response, w'))
          else (Inr response, w'))"

text \<open>
  The \<^verbatim>\<open>while (attempt < this.config.retries)\<close> loop. \<open>lastError\<close> is \<open>None\<close> while
  the variable is still unassigned; the final \<^verbatim>\<open>throw lastError\<close> throws it whatever
  it is. \<open>baseDelay\<close> names the literal \<^verbatim>\<open>1000\<close> in
  \<^verbatim>\<open>Math.pow(2, attempt) * 1000\<close>; the source has no setting for it.
\<close>

definition baseDelay :: int where
  "baseDelay = 1000"

function retry_loop ::
  "('w, 'x) api_env \<Rightarrow> api_config \<Rightarrow> ('w, 'x) api_step \<Rightarrow> obj \<Rightarrow> nat \<Rightarrow> 'x js_error option \<Rightarrow> 'w
     \<Rightarrow> ('x js_error option + obj) \<times> 'w" where
  "retry_loop env cfg step config attempt lastError w =
     (if attempt < retries cfg then
        (case attempt_request env cfg step config w of
           (Inr response, w1) \<Rightarrow> (Inr response, w1)
         | (Inl error, w1) \<Rightarrow>
             retry_loop env cfg step config (attempt + 1) (Some error)
               (if attempt + 1 < retries cfg
                then setTimeout env (JNum (2 ^ (attempt + 1) * baseDelay)) w1
                else w1))
      else (Inl lastError, w))"
  by pat_completeness auto
termination
  by (relation "measure (\<lambda>(env, cfg, step, config, attempt, lastError, w). retries cfg - attempt)")
     auto

declare retry_loop.simps [simp del]

definition makeRequest ::
  "('w, 'x) api_env \<Rightarrow> api_config \<Rightarrow> ('w, 'x) api_step \<Rightarrow> obj \<Rightarrow> 'w
     \<Rightarrow> ('x js_error option + obj) \<times> 'w" where
  "makeRequest env cfg step testContext w =
     retry_loop env cfg step (request_config (inherit env) step testContext) 0 None w"

section \<open>The API tester: assertions\<close>

text \<open>\<^verbatim>\<open>path.split('.')\<close>: the segments between dots, empty ones included.\<close>

fun split_dot :: "string \<Rightarrow> string list" where
  "split_dot [] = [[]]"
| "split_dot (c # cs) =
     (if c = CHR ''.'' then [] # split_dot cs
      else (case split_dot cs of [] \<Rightarrow> [[c]] | x # xs \<Rightarrow> (c # x) # xs))"

text \<open>
  \<^verbatim>\<open>path.split('.').reduce((current, key) => current && current[key] !== undefined ?
  current[key] : undefined, obj)\<close>.
\<close>

definition nested_step :: "inherited \<Rightarrow> jsv \<Rightarrow> string \<Rightarrow> jsv" where
  "nested_step inh current key =
     (if truthy current \<and> get_prop inh current key \<noteq> JUndefined
      then get_prop inh current key else JUndefined)"

definition getNestedValue :: "inherited \<Rightarrow> jsv \<Rightarrow> string \<Rightarrow> jsv" where
  "getNestedValue inh obj path = foldl (nested_step inh) obj (split_dot path)"

definition toLowerCase :: "string \<Rightarrow> string" where
  "toLowerCase s =
     map (\<lambda>c. if c \<in> set ''ABCDEFGHIJKLMNOPQRSTUVWXYZ'' then char_of (of_char c + (32::nat)) else c) s"

text \<open>
  \<^verbatim>\<open>executeAssertion(step, testContext)\<close>: the subject is
  \<^verbatim>\<open>testContext[assertion.target] || testContext.lastResponse\<close>; the \<^verbatim>\<open>switch\<close>
  throws on a failed check and on an unknown type. Returning \<open>Inr ()\<close> is passing.
\<close>

definition assertion_subject :: "inherited \<Rightarrow> obj \<Rightarrow> ('w, 'x) assertion \<Rightarrow> jsv" where
  "assertion_subject inh testContext assertion =
     or_else (get_prop inh (JObj testContext) (to_string (a_target assertion)))
             (get_prop inh (JObj testContext) ''lastResponse'')"

definition executeAssertion ::
  "('w, 'x) api_env \<Rightarrow> ('w, 'x) api_step \<Rightarrow> obj \<Rightarrow> 'w \<Rightarrow> ('x js_error + unit) \<times> obj \<times> 'w" where
  "executeAssertion env step testContext w =
     (case s_assertion step of
        None \<Rightarrow> (Inl (Error (''Cannot read properties of undefined (reading '' @ [CHR 0x27]
                              @ ''target'' @ [CHR 0x27] @ '')'')), testContext, w)
      | Some assertion \<Rightarrow>
          (let inh = inherit env;
               response = assertion_subject inh testContext assertion
           in if \<not> truthy response then
                (Inl (Error (''No response found for assertion target: ''
                              @ to_string (a_target assertion))), testContext, w)
              else if a_type assertion = JStr ''status'' then
                (if \<not> strict_equals (get_prop inh response ''status'') (a_expected assertion)
                 then (Inl (Error (''Status assertion failed. Expected: ''
                         @ to_string (a_expected assertion) @ '', Got: ''
                         @ to_string (get_prop inh response ''status''))), testContext, w)
                 else (Inr (), testContext, w))
              else if a_type assertion = JStr ''header'' then
                (case a_header assertion of
                   JStr h \<Rightarrow>
                     (case read_member inh (get_prop inh response ''headers'') (toLowerCase h) of
                        Inl error \<Rightarrow> (Inl error, testContext, w)
                      | Inr headerValue \<Rightarrow>
                          if \<not> strict_equals headerValue (a_expected assertion)
                          then (Inl (Error (''Header assertion failed. Expected: ''
                                  @ to_string (a_expected assertion) @ '', Got: ''
                                  @ to_string headerValue)), testContext, w)
                          else (Inr (), testContext, w))
                 | v \<Rightarrow>
                     (case read_member inh v ''toLowerCase'' of
                        Inl error \<Rightarrow> (Inl error, testContext, w)
                      | Inr f \<Rightarrow> (Inl (Error ''assertion.header.toLowerCase is not a function''),
                                  testContext, w)))
              else if a_type assertion = JStr ''body'' then
                (case a_path assertion of
                   JStr p \<Rightarrow>
                     (let actualValue = getNestedValue inh (get_prop inh response ''data'') p
                      in if \<not> strict_equals actualValue (a_expected assertion)
                         then (Inl (Error (''Body assertion failed. Expected: ''
                                 @ to_string (a_expected assertion) @ '', Got: ''
                                 @ to_string actualValue)), testContext, w)
                         else (Inr (), testContext, w))
                 | v \<Rightarrow>
                     (case read_member inh v ''split'' of
                        Inl error \<Rightarrow> (Inl error, testContext, w)
                      | Inr f \<Rightarrow> (Inl (Error ''path.split is not a function''), testContext, w)))
              else if a_type assertion = JStr ''schema'' then
                (validateResponseSchema env (get_prop inh response ''data'') (a_schema assertion),
                 testContext, w)
              else if a_type assertion = JStr ''performance'' then
                (let metadata = get_prop inh response ''metadata'';
                     duration = or_else (if metadata = JUndefined \<or> metadata = JNull then JUndefined
                                         else get_prop inh metadata ''duration'') (JNum 0)
                 in if greater env duration (a_maxDuration assertion)
                    then (Inl (Error (''Performance assertion failed. Expected: <''
                            @ to_string (a_maxDuration assertion) @ ''ms, Got: ''
                            @ to_string duration @ ''ms'')), testContext, w)
                    else (Inr (), testContext, w))
              else if a_type assertion = JStr ''custom'' then
                (case a_validator assertion of
                   None \<Rightarrow> (Inr (), testContext, w)
                 | Some f \<Rightarrow>
                     (case f response testContext w of
                        (Inl error, testContext', w') \<Rightarrow> (Inl error, testContext', w')
                      | (Inr result, testContext', w') \<Rightarrow>
                          (case read_member inh result ''valid'' of
                             Inl error \<Rightarrow> (Inl error, testContext', w')
                           | Inr valid \<Rightarrow>
                               if \<not> truthy valid
                               then (Inl (Error (''Custom assertion failed: ''
                                       @ to_string (get_prop inh result ''message''))),
                                     testContext', w')
                               else (Inr (), testContext', w'))))
              else (Inl (Error (''Unknown assertion type: '' @ to_string (a_type assertion))),
                    testContext, w)))"

section \<open>The API tester: steps and tests\<close>

definition assign_member :: "jsv \<Rightarrow> string \<Rightarrow> jsv \<Rightarrow> jsv" where
  "assign_member v k x = (case v of JObj kvs \<Rightarrow> JObj (set_prop kvs k x) | _ \<Rightarrow> v)"

definition assertion_entries :: "('w, 'x) assertion \<Rightarrow> obj" where
  "assertion_entries a =
     filter (\<lambda>kv. snd kv \<noteq> JUndefined)
       [(''target'', a_target a), (''type'', a_type a), (''expected'', a_expected a),
        (''header'', a_header a), (''path'', a_path a), (''schema'', a_schema a),
        (''maxDuration'', a_maxDuration a),
        (''validator'', case a_validator a of None \<Rightarrow> JUndefined | Some f \<Rightarrow> JFun ''validator'')]"

text \<open>The own properties of a step object, as \<^verbatim>\<open>{ ...request }\<close> copies them.\<close>

definition step_entries :: "('w, 'x) api_step \<Rightarrow> obj" where
  "step_entries step =
     filter (\<lambda>kv. snd kv \<noteq> JUndefined)
       [(''name'', s_name step), (''type'', s_type step), (''method'', s_method step),
        (''url'', s_url step), (''headers'', s_headers step), (''data'', s_data step),
        (''params'', s_params step), (''options'', s_options step),
        (''responseSchema'', s_responseSchema step), (''saveAs'', s_saveAs step),
        (''duration'', s_duration step), (''continueOnFailure'', s_continueOnFailure step),
        (''handler'', case s_handler step of None \<Rightarrow> JUndefined | Some h \<Rightarrow> JFun ''handler''),
        (''assertion'', case s_assertion step of None \<Rightarrow> JUndefined
                        | Some a \<Rightarrow> JObj (assertion_entries a))]"

definition sanitizeRequest :: "inherited \<Rightarrow> obj \<Rightarrow> obj" where
  "sanitizeRequest inh request =
     (let sanitized = request;
          headers = get_prop inh (JObj sanitized) ''headers'';
          sanitized1 =
            (if truthy headers \<and> truthy (get_prop inh headers ''authorization'')
             then set_prop sanitized ''headers''
                    (assign_member headers ''authorization'' (JStr ''[REDACTED]''))
             else sanitized);
          data = get_prop inh (JObj sanitized1) ''data''
      in if truthy data \<and> truthy (get_prop inh data ''password'')
         then set_prop sanitized1 ''data''
                (JObj (set_prop (spread data) ''password'' (JStr ''[REDACTED]'')))
         else sanitized1)"

definition sanitizeResponse :: "inherited \<Rightarrow> api_config \<Rightarrow> obj \<Rightarrow> obj" where
  "sanitizeResponse inh cfg response =
     (let sanitized = [(''status'', get_prop inh (JObj response) ''status''),
                       (''statusText'', get_prop inh (JObj response) ''statusText'')]
      in if \<not> captureBody cfg \<and> \<not> captureHeaders cfg then sanitized
         else (let sanitized1 = (if captureHeaders cfg
                                 then set_prop sanitized ''headers''
                                        (get_prop inh (JObj response) ''headers'')
                                 else sanitized)
               in if captureBody cfg
                  then set_prop sanitized1 ''data'' (get_prop inh (JObj response) ''data'')
                  else sanitized1))"

definition executeSetup ::
  "('w, 'x) api_step \<Rightarrow> obj \<Rightarrow> 'w \<Rightarrow> ('x js_error + unit) \<times> obj \<times> 'w" where
  "executeSetup step testContext w =
     (case s_handler step of None \<Rightarrow> (Inr (), testContext, w) | Some h \<Rightarrow> h testContext w)"

definition executeCleanup ::
  "('w, 'x) api_step \<Rightarrow> obj \<Rightarrow> 'w \<Rightarrow> ('x js_error + unit) \<times> obj \<times> 'w" where
  "executeCleanup step testContext w =
     (case s_handler step of None \<Rightarrow> (Inr (), testContext, w) | Some h \<Rightarrow> h testContext w)"

definition timestamp :: "('w, 'x) api_env \<Rightarrow> 'w \<Rightarrow> jsv" where
  "timestamp env w = JStr (toISOString env (date_now env w))"

text \<open>
  The \<^verbatim>\<open>switch\<close> of \<^verbatim>\<open>executeAPIStep\<close>: what the \<^verbatim>\<open>try\<close> block throws (\<open>None\<close> is a
  thrown \<^verbatim>\<open>undefined\<close>) or the step result it has filled in, with the test context and
  the world it leaves.
\<close>

definition step_body ::
  "('w, 'x) api_env \<Rightarrow> api_config \<Rightarrow> ('w, 'x) api_step \<Rightarrow> obj \<Rightarrow> obj \<Rightarrow> 'w
     \<Rightarrow> ('x js_error option + obj) \<times> obj \<times> 'w" where
  "step_body env cfg step stepResult testContext w =
     (if s_type step = JStr ''request'' then
        (case makeRequest env cfg step testContext w of
           (Inl thrown, w') \<Rightarrow> (Inl thrown, testContext, w')
         | (Inr response, w') \<Rightarrow>
             (let inh = inherit env;
                  metadata = get_prop inh (JObj response) ''metadata'';
                  duration = or_else (if metadata = JUndefined \<or> metadata = JNull then JUndefined
                                      else get_prop inh metadata ''duration'') (JNum 0);
                  stepResult' = assign_all stepResult
                    [(''request'', JObj (sanitizeRequest inh (step_entries step))),
                     (''response'', JObj (sanitizeResponse inh cfg response)),
                     (''duration'', duration)]
              in (Inr stepResult',
                  (if truthy (s_saveAs step)
                   then set_prop testContext (to_string (s_saveAs step)) (JObj response)
                   else testContext),
                  w')))
      else if s_type step = JStr ''assertion'' then
        (case executeAssertion env step testContext w of
           (Inl error, testContext', w') \<Rightarrow> (Inl (Some error), testContext', w')
         | (Inr u, testContext', w') \<Rightarrow>
             (Inr (set_prop stepResult ''assertion''
                     (case s_assertion step of None \<Rightarrow> JUndefined
                      | Some a \<Rightarrow> JObj (assertion_entries a))),
              testContext', w'))
      else if s_type step = JStr ''wait'' then
        (Inr stepResult, testContext, setTimeout env (or_else (s_duration step) (JNum 1000)) w)
      else if s_type step = JStr ''setup'' then
        (case executeSetup step testContext w of
           (Inl error, testContext', w') \<Rightarrow> (Inl (Some error), testContext', w')
         | (Inr u, testContext', w') \<Rightarrow> (Inr stepResult, testContext', w'))
      else if s_type step = JStr ''cleanup'' then
        (case executeCleanup step testContext w of
           (Inl error, testContext', w') \<Rightarrow> (Inl (Some error), testContext', w')
         | (Inr u, testContext', w') \<Rightarrow> (Inr stepResult, testContext', w'))
      else (Inl (Some (Error (''Unknown step type: '' @ to_string (s_type step)))), testContext, w))"

text \<open>
  \<^verbatim>\<open>executeAPIStep\<close>: the \<^verbatim>\<open>catch\<close> turns what was thrown into a failed step result;
  reading \<^verbatim>\<open>error.message\<close> of a thrown \<^verbatim>\<open>undefined\<close> throws in turn, out of the
  function.
\<close>

definition executeAPIStep ::
  "('w, 'x) api_env \<Rightarrow> api_config \<Rightarrow> ('w, 'x) api_step \<Rightarrow> obj \<Rightarrow> 'w
     \<Rightarrow> ('x js_error + obj) \<times> obj \<times> 'w" where
  "executeAPIStep env cfg step testContext w =
     (let stepResult = [(''name'', s_name step), (''type'', s_type step),
                        (''startTime'', timestamp env w), (''status'', JStr ''running'')]
      in case step_body env cfg step stepResult testContext w of
           (Inr stepResult', testContext', w') \<Rightarrow>
             (Inr (assign_all stepResult'
                     [(''status'', JStr ''passed''), (''endTime'', timestamp env w')]),
              testContext', w')
         | (Inl None, testContext', w') \<Rightarrow>
             (Inl (Error (''Cannot read properties of undefined (reading '' @ [CHR 0x27]
                           @ ''message'' @ [CHR 0x27] @ '')'')), testContext', w')
         | (Inl (Some error), testContext', w') \<Rightarrow>
             (Inr (assign_all stepResult
                     [(''status'', JStr ''failed''), (''error'', JStr (message error)),
                      (''endTime'', timestamp env w')]),
              testContext', w'))"

text \<open>\<^verbatim>\<open>testResult.requests.push(stepResult)\<close>, on whatever the property holds.\<close>

definition push_onto :: "inherited \<Rightarrow> obj \<Rightarrow> string \<Rightarrow> jsv \<Rightarrow> 'x js_error + obj" where
  "push_onto inh testResult k x =
     (case get_prop inh (JObj testResult) k of
        JArr xs \<Rightarrow> Inr (set_prop testResult k (JArr (xs @ [x])))
      | v \<Rightarrow> (case read_member inh v ''push'' of
                 Inl error \<Rightarrow> Inl error
               | Inr f \<Rightarrow> Inl (Error (''testResult.'' @ k @ ''.push is not a function''))))"

text \<open>
  The step loop of \<^verbatim>\<open>runAPITest\<close>. The test result object is also the test context
  that the steps read and write.
\<close>

fun api_steps ::
  "('w, 'x) api_env \<Rightarrow> api_config \<Rightarrow> ('w, 'x) api_step list \<Rightarrow> obj \<Rightarrow> 'w
     \<Rightarrow> ('x js_error + unit) \<times> obj \<times> 'w" where
  "api_steps env cfg [] testResult w = (Inr (), testResult, w)"
| "api_steps env cfg (step # rest) testResult w =
     (case executeAPIStep env cfg step testResult w of
        (Inl error, testResult1, w1) \<Rightarrow> (Inl error, testResult1, w1)
      | (Inr stepResult, testResult1, w1) \<Rightarrow>
          (case (if get_prop (inherit env) (JObj stepResult) ''type'' = JStr ''request''
                 then push_onto (inherit env) testResult1 ''requests'' (JObj stepResult)
                 else if get_prop (inherit env) (JObj stepResult) ''type'' = JStr ''assertion''
                 then push_onto (inherit env) testResult1 ''assertions'' (JObj stepResult)
                 else Inr testResult1) of
             Inl error \<Rightarrow> (Inl error, testResult1, w1)
           | Inr testResult2 \<Rightarrow>
               if get_prop (inherit env) (JObj stepResult) ''status'' = JStr ''failed''
                  \<and> \<not> truthy (s_continueOnFailure step)
               then (Inl (Error (''Step failed: ''
                       @ to_string (get_prop (inherit env) (JObj stepResult) ''error''))),
                     testResult2, w1)
               else api_steps env cfg rest testResult2 w1))"

definition runAPITest ::
  "('w, 'x) api_env \<Rightarrow> api_config \<Rightarrow> ('w, 'x) api_test \<Rightarrow> 'w \<Rightarrow> obj \<times> 'w" where
  "runAPITest env cfg test w =
     (let testResult = [(''id'', t_id test), (''name'', t_name test), (''type'', JStr ''api''),
                        (''status'', JStr ''running''), (''startTime'', timestamp env w),
                        (''requests'', JArr []), (''assertions'', JArr [])]
      in case api_steps env cfg (case t_steps test of None \<Rightarrow> [] | Some steps \<Rightarrow> steps)
                testResult w of
           (Inr u, testResult', w') \<Rightarrow>
             (assign_all testResult'
                [(''status'', JStr ''passed''), (''endTime'', timestamp env w')], w')
         | (Inl error, testResult', w') \<Rightarrow>
             (assign_all testResult'
                [(''status'', JStr ''failed''), (''error'', JStr (message error)),
                 (''endTime'', timestamp env w')], w'))"

section \<open>The core engine: collaborators and data\<close>

text \<open>
  \<^verbatim>\<open>SmartQACore\<close> drives a Playwright page. Every page operation may throw and may
  change the world. \<open>p_screenshot\<close> yields the base64 text of the captured buffer.
\<close>

record ('w, 'x) page =
  p_goto :: "jsv \<Rightarrow> jsv \<Rightarrow> 'w \<Rightarrow> ('x js_error + unit) \<times> 'w"
  p_click :: "jsv \<Rightarrow> jsv \<Rightarrow> 'w \<Rightarrow> ('x js_error + unit) \<times> 'w"
  p_fill :: "jsv \<Rightarrow> jsv \<Rightarrow> 'w \<Rightarrow> ('x js_error + unit) \<times> 'w"
  p_type :: "jsv \<Rightarrow> jsv \<Rightarrow> jsv \<Rightarrow> 'w \<Rightarrow> ('x js_error + unit) \<times> 'w"
  p_waitForSelector :: "jsv \<Rightarrow> jsv \<Rightarrow> 'w \<Rightarrow> ('x js_error + unit) \<times> 'w"
  p_waitForTimeout :: "jsv \<Rightarrow> 'w \<Rightarrow> ('x js_error + unit) \<times> 'w"
  p_screenshot :: "jsv \<Rightarrow> 'w \<Rightarrow> ('x js_error + string) \<times> 'w"
  p_textContent :: "jsv \<Rightarrow> 'w \<Rightarrow> ('x js_error + jsv) \<times> 'w"
  p_isVisible :: "jsv \<Rightarrow> 'w \<Rightarrow> ('x js_error + jsv) \<times> 'w"
  p_url :: "'w \<Rightarrow> ('x js_error + jsv) \<times> 'w"
  p_count :: "jsv \<Rightarrow> 'w \<Rightarrow> ('x js_error + jsv) \<times> 'w"

record ('w, 'x) browser_context =
  newPage :: "'w \<Rightarrow> ('x js_error + ('w, 'x) page) \<times> 'w"
  close :: "'w \<Rightarrow> ('x js_error + unit) \<times> 'w"

record ('w, 'x) browser =
  newContext :: "obj \<Rightarrow> 'w \<Rightarrow> ('x js_error + ('w, 'x) browser_context) \<times> 'w"

datatype run_status = Running | Passed | Failed

record step_result =
  sr_name :: jsv
  sr_action :: jsv
  sr_startTime :: string
  sr_status :: run_status
  sr_endTime :: "string option"
  sr_error :: "string option"
  sr_screenshot :: "string option"

record screenshot_entry =
  sh_type :: string
  sh_data :: string
  sh_timestamp :: string

record test_result =
  tr_id :: jsv
  tr_name :: jsv
  tr_browser :: string
  tr_status :: run_status
  tr_startTime :: string
  tr_endTime :: "string option"
  tr_steps :: "step_result list"
  tr_screenshots :: "screenshot_entry list"
  tr_errors :: "jsv list"
  tr_error :: "string option"

text \<open>The clock and the listeners of the \<^verbatim>\<open>EventEmitter\<close> that the engine extends.\<close>

record 'w core_env =
  clock :: "'w \<Rightarrow> int"
  isoString :: "int \<Rightarrow> string"
  emit :: "string \<Rightarrow> test_result \<Rightarrow> 'w \<Rightarrow> 'w"

text \<open>
  \<^verbatim>\<open>step.handler\<close>: a function (\<^verbatim>\<open>typeof step.handler === 'function'\<close>) or any other
  value, \<open>JUndefined\<close> when the field is absent.
\<close>

datatype ('w, 'x) handler_field =
    Callable "('w, 'x) page \<Rightarrow> jsv \<Rightarrow> 'w \<Rightarrow> ('x js_error + unit) \<times> 'w"
  | NotCallable jsv

record ('w, 'x) ui_step =
  u_name :: jsv
  u_action :: jsv
  u_url :: jsv
  u_waitUntil :: jsv
  u_selector :: jsv
  u_options :: jsv
  u_value :: jsv
  u_text :: jsv
  u_timeout :: jsv
  u_type :: jsv
  u_expected :: jsv
  u_params :: jsv
  u_continueOnFailure :: jsv
  u_handler :: "('w, 'x) handler_field"

record ('w, 'x) ui_test =
  d_id :: jsv
  d_name :: jsv
  d_viewport :: jsv
  d_userAgent :: jsv
  d_contextOptions :: jsv
  d_steps :: "('w, 'x) ui_step list option"

section \<open>The core engine: executeStep\<close>

text \<open>\<^verbatim>\<open>SmartQACore.executeAssertion(page, step)\<close>.\<close>

definition check_expected ::
  "string \<Rightarrow> bool \<Rightarrow> ('w, 'x) ui_step \<Rightarrow> ('x js_error + jsv) \<times> 'w \<Rightarrow> ('x js_error + unit) \<times> 'w" where
  "check_expected label quoted step observed =
     (case observed of
        (Inl error, w') \<Rightarrow> (Inl error, w')
      | (Inr actual, w') \<Rightarrow>
          if \<not> strict_equals (u_expected step) actual
          then (Inl (Error (label @ '' assertion failed. Expected: ''
                  @ (if quoted then [CHR 0x22] else []) @ to_string (u_expected step)
                  @ (if quoted then [CHR 0x22] else []) @ '', Got: ''
                  @ (if quoted then [CHR 0x22] else []) @ to_string actual
                  @ (if quoted then [CHR 0x22] else []))), w')
          else (Inr (), w'))"

definition core_executeAssertion ::
  "('w, 'x) page \<Rightarrow> ('w, 'x) ui_step \<Rightarrow> 'w \<Rightarrow> ('x js_error + unit) \<times> 'w" where
  "core_executeAssertion page step w =
     (if u_type step = JStr ''text'' then
        check_expected ''Text'' True step (p_textContent page (u_selector step) w)
      else if u_type step = JStr ''visible'' then
        check_expected ''Visibility'' False step (p_isVisible page (u_selector step) w)
      else if u_type step = JStr ''url'' then
        check_expected ''URL'' True step (p_url page w)
      else if u_type step = JStr ''count'' then
        check_expected ''Count'' False step (p_count page (u_selector step) w)
      else (Inl (Error (''Unknown assertion type: '' @ to_string (u_type step))), w))"

text \<open>
  The \<^verbatim>\<open>switch (step.action)\<close> of \<^verbatim>\<open>executeStep\<close>: what the \<^verbatim>\<open>try\<close> block throws,
  or the screenshot it has stored on the step result, if any.
\<close>

definition without_value :: "('x js_error + unit) \<times> 'w \<Rightarrow> ('x js_error + string option) \<times> 'w" where
  "without_value r = (case r of (Inl error, w') \<Rightarrow> (Inl error, w') | (Inr u, w') \<Rightarrow> (Inr None, w'))"

definition dispatch ::
  "('w, 'x) page \<Rightarrow> ('w, 'x) ui_step \<Rightarrow> 'w \<Rightarrow> ('x js_error + string option) \<times> 'w" where
  "dispatch page step w =
     (if u_action step = JStr ''navigate'' then
        without_value (p_goto page (u_url step)
          (JObj [(''waitUntil'', or_else (u_waitUntil step) (JStr ''networkidle''))]) w)
      else if u_action step = JStr ''click'' then
        without_value (p_click page (u_selector step) (u_options step) w)
      else if u_action step = JStr ''fill'' then
        without_value (p_fill page (u_selector step) (u_value step) w)
      else if u_action step = JStr ''type'' then
        without_value (p_type page (u_selector step) (u_text step) (u_options step) w)
      else if u_action step = JStr ''wait'' then
        (if truthy (u_selector step) then
           without_value (p_waitForSelector page (u_selector step) (u_options step) w)
         else if truthy (u_timeout step) then
           without_value (p_waitForTimeout page (u_timeout step) w)
         else (Inr None, w))
      else if u_action step = JStr ''screenshot'' then
        (case p_screenshot page (or_else (u_options step) (JObj [])) w of
           (Inl error, w') \<Rightarrow> (Inl error, w')
         | (Inr shot, w') \<Rightarrow> (Inr (Some shot), w'))
      else if u_action step = JStr ''assert'' then
        without_value (core_executeAssertion page step w)
      else if u_action step = JStr ''custom'' then
        (case u_handler step of
           Callable f \<Rightarrow> without_value (f page (u_params step) w)
         | NotCallable v \<Rightarrow> (Inr None, w))
      else (Inl (Error (''Unknown action: '' @ to_string (u_action step))), w))"

definition executeStep ::
  "'w core_env \<Rightarrow> ('w, 'x) page \<Rightarrow> ('w, 'x) ui_step \<Rightarrow> 'w \<Rightarrow> step_result \<times> 'w" where
  "executeStep env page step w =
     (let stepResult = \<lparr>sr_name = u_name step, sr_action = u_action step,
                         sr_startTime = isoString env (clock env w), sr_status = Running,
                         sr_endTime = None, sr_error = None, sr_screenshot = None\<rparr>
      in case dispatch page step w of
           (Inr shot, w') \<Rightarrow>
             (stepResult\<lparr>sr_screenshot := shot, sr_status := Passed,
                          sr_endTime := Some (isoString env (clock env w'))\<rparr>, w')
         | (Inl error, w') \<Rightarrow>
             (stepResult\<lparr>sr_status := Failed, sr_error := Some (message error),
                          sr_endTime := Some (isoString env (clock env w'))\<rparr>, w'))"

section \<open>The core engine: executeTest\<close>

text \<open>
  The \<^verbatim>\<open>for\<close> loop inside the \<^verbatim>\<open>try\<close> block: each step result is appended; a failed
  step whose \<^verbatim>\<open>continueOnFailure\<close> is falsy throws.
\<close>

fun run_steps ::
  "'w core_env \<Rightarrow> ('w, 'x) page \<Rightarrow> ('w, 'x) ui_step list \<Rightarrow> test_result \<Rightarrow> 'w
     \<Rightarrow> ('x js_error + unit) \<times> test_result \<times> 'w" where
  "run_steps env page [] testResult w = (Inr (), testResult, w)"
| "run_steps env page (step # rest) testResult w =
     (case executeStep env page step w of
        (stepResult, w1) \<Rightarrow>
          (let testResult1 = testResult\<lparr>tr_steps := tr_steps testResult @ [stepResult]\<rparr>
           in if sr_status stepResult = Failed \<and> \<not> truthy (u_continueOnFailure step)
              then (Inl (Error (''Step failed: ''
                      @ (case sr_error stepResult of None \<Rightarrow> ''undefined'' | Some m \<Rightarrow> m))),
                    testResult1, w1)
              else run_steps env page rest testResult1 w1))"

definition context_options :: "('w, 'x) ui_test \<Rightarrow> obj" where
  "context_options test =
     assign_all
       [(''viewport'', or_else (d_viewport test)
                         (JObj [(''width'', JNum 1920), (''height'', JNum 1080)])),
        (''userAgent'', d_userAgent test)]
       (spread (d_contextOptions test))"

text \<open>
  \<^verbatim>\<open>executeTest\<close>. Creating the context and the page happens before the \<^verbatim>\<open>try\<close>;
  the \<^verbatim>\<open>catch\<close> marks the test failed and tries a failure screenshot; the
  \<^verbatim>\<open>finally\<close> closes the context; then the result is emitted and returned. \<open>Inl\<close> is a
  rejection of the returned promise.
\<close>

definition initial_result :: "'w core_env \<Rightarrow> string \<Rightarrow> ('w, 'x) ui_test \<Rightarrow> 'w \<Rightarrow> test_result" where
  "initial_result env browserType test w =
     \<lparr>tr_id = (if truthy (d_id test) then d_id test
                else JStr (''test_'' @ show_int (clock env w))),
      tr_name = d_name test, tr_browser = browserType, tr_status = Running,
      tr_startTime = isoString env (clock env w), tr_endTime = None, tr_steps = [],
      tr_screenshots = [], tr_errors = [], tr_error = None\<rparr>"

definition full_page :: jsv where
  "full_page = JObj [(''fullPage'', JBool True)]"

definition executeTest ::
  "'w core_env \<Rightarrow> ('w, 'x) browser \<Rightarrow> string \<Rightarrow> ('w, 'x) ui_test \<Rightarrow> 'w
     \<Rightarrow> ('x js_error + test_result) \<times> 'w" where
  "executeTest env browser browserType test w =
     (case newContext browser (context_options test) w of
        (Inl error, w1) \<Rightarrow> (Inl error, w1)
      | (Inr context, w1) \<Rightarrow>
     (case newPage context w1 of
        (Inl error, w2) \<Rightarrow> (Inl error, w2)
      | (Inr page, w2) \<Rightarrow>
     (let testResult = initial_result env browserType test w2;
          settled =
            (case run_steps env page (case d_steps test of None \<Rightarrow> [] | Some steps \<Rightarrow> steps)
                    testResult w2 of
               (Inr u, testResult1, w3) \<Rightarrow>
                 (testResult1\<lparr>tr_status := Passed,
                               tr_endTime := Some (isoString env (clock env w3))\<rparr>, w3)
             | (Inl error, testResult1, w3) \<Rightarrow>
                 (let testResult2 =
                        testResult1\<lparr>tr_status := Failed, tr_error := Some (message error),
                                     tr_endTime := Some (isoString env (clock env w3))\<rparr>
                  in case p_screenshot page full_page w3 of
                       (Inr shot, w4) \<Rightarrow>
                         (testResult2\<lparr>tr_screenshots := tr_screenshots testResult2 @
                            [\<lparr>sh_type = ''failure'', sh_data = shot,
                              sh_timestamp = isoString env (clock env w4)\<rparr>]\<rparr>, w4)
                     | (Inl screenshotError, w4) \<Rightarrow> (testResult2, w4)))
      in case close context (snd settled) of
           (Inl error, w5) \<Rightarrow> (Inl error, w5)
         | (Inr u, w5) \<Rightarrow> (Inr (fst settled), emit env ''testCompleted'' (fst settled) w5))))"

text \<open>
  Notions used to state properties of a run: whether a step, executed in a given world,
  fails without \<^verbatim>\<open>continueOnFailure\<close>; the position (from 1) of the first such step
  when the steps are executed in order; and the step results of executing all steps in
  order.
\<close>

definition blocking :: "'w core_env \<Rightarrow> ('w, 'x) page \<Rightarrow> ('w, 'x) ui_step \<Rightarrow> 'w \<Rightarrow> bool" where
  "blocking env page step w =
     (sr_status (fst (executeStep env page step w)) = Failed
      \<and> \<not> truthy (u_continueOnFailure step))"



section \<open>The API tester: ramp-up of a load test\<close>




section \<open>An observable world for the retry controller\<close>

text \<open>
  To count calls and delays, the world is instantiated with a probe that records how
  often the adapter was called and which delays were waited. The endpoint is a script:
  the outcome of the \<open>k\<close>-th call, counted from 1. The clock advances by the delays
  waited.
\<close>

record probe =
  calls :: nat
  waited :: "jsv list"

fun total_delay :: "jsv list \<Rightarrow> int" where
  "total_delay [] = 0"
| "total_delay (JNum d # ds) = d + total_delay ds"
| "total_delay (v # ds) = total_delay ds"

definition probe0 :: probe where
  "probe0 = \<lparr>calls = 0, waited = []\<rparr>"

definition probe_env ::
  "(nat \<Rightarrow> 'x js_error + obj) \<Rightarrow> (jsv \<Rightarrow> jsv \<Rightarrow> string option) \<Rightarrow> inherited
     \<Rightarrow> (probe, 'x) api_env" where
  "probe_env endpoint validate inh =
     \<lparr>date_now = (\<lambda>w. total_delay (waited w)),
      toISOString = show_int,
      adapter = (\<lambda>config w. (endpoint (Suc (calls w)), w\<lparr>calls := Suc (calls w)\<rparr>)),
      setTimeout = (\<lambda>d w. w\<lparr>waited := waited w @ [d]\<rparr>),
      validateAsync = validate,
      inherit = inh,
      greater = (\<lambda>a b. case (a, b) of (JNum x, JNum y) \<Rightarrow> x > y | _ \<Rightarrow> False)\<rparr>"

text \<open>
  The outcome of the \<open>k\<close>-th execution of the work unit (the \<^verbatim>\<open>try\<close> body: the call and
  the schema check) against a scripted endpoint.
\<close>

definition attempt_outcome ::
  "(nat \<Rightarrow> 'x js_error + obj) \<Rightarrow> (jsv \<Rightarrow> jsv \<Rightarrow> string option) \<Rightarrow> inherited
     \<Rightarrow> api_config \<Rightarrow> (probe, 'x) api_step \<Rightarrow> obj \<Rightarrow> nat \<Rightarrow> 'x js_error + obj" where
  "attempt_outcome endpoint validate inh cfg step config k =
     fst (attempt_request (probe_env endpoint validate inh) cfg step config
            \<lparr>calls = k - 1, waited = []\<rparr>)"

definition backoff_delays :: "nat \<Rightarrow> jsv list" where
  "backoff_delays m = map (\<lambda>i. JNum (2 ^ i * baseDelay)) [1..<Suc m]"


section \<open>Scenarios\<close>

text \<open>
  Concrete collaborators and steps for the scenarios below. \<open>standard_members\<close> lists
  members that every object inherits from \<^verbatim>\<open>Object.prototype\<close>.
\<close>

definition standard_members :: inherited where
  "standard_members v k =
     (if k = ''constructor'' then JFun ''Object''
      else if k \<in> set [''hasOwnProperty'', ''isPrototypeOf'', ''propertyIsEnumerable'',
                        ''toLocaleString'', ''toString'', ''valueOf'']
      then JFun k else JUndefined)"

definition no_schema :: "jsv \<Rightarrow> jsv \<Rightarrow> string option" where
  "no_schema sch data = None"

definition response_of :: "int \<Rightarrow> jsv \<Rightarrow> obj" where
  "response_of status body =
     [(''status'', JNum status), (''statusText'', JStr []),
      (''headers'', JObj [(''content-type'', JStr ''application/json'')]), (''data'', body)]"

definition get_users :: "(probe, nat) api_step" where
  "get_users =
     \<lparr>s_name = JStr ''list users'', s_type = JStr ''request'', s_method = JStr ''GET'',
      s_url = JStr ''https://api.test/users'', s_headers = JUndefined, s_data = JUndefined,
      s_params = JUndefined, s_options = JUndefined, s_responseSchema = JUndefined,
      s_saveAs = JUndefined, s_duration = JUndefined, s_continueOnFailure = JUndefined,
      s_handler = None, s_assertion = None\<rparr>"

definition always_down :: "nat \<Rightarrow> nat js_error + obj" where
  "always_down k = Inl (Foreign ''connect ECONNREFUSED'' k)"

definition down_twice :: "nat \<Rightarrow> nat js_error + obj" where
  "down_twice k =
     (if k \<le> 2 then Inl (Foreign ''socket hang up'' k) else Inr (response_of 200 (JArr [])))"

definition flaky_500 :: "nat \<Rightarrow> nat js_error + obj" where
  "flaky_500 k =
     (if k \<le> 2 then Inr (response_of 500 (JStr ''Internal Server Error''))
      else Inr (response_of 200 (JArr [])))"

text \<open>
  A two-step API test: a request, saved under a name or not, and a status assertion
  that names no target.
\<close>

definition always_ok :: "nat \<Rightarrow> nat js_error + obj" where
  "always_ok k = Inr (response_of 200 (JArr []))"

definition assertion0 :: "(probe, nat) assertion" where
  "assertion0 =
     \<lparr>a_target = JUndefined, a_type = JUndefined, a_expected = JUndefined,
      a_header = JUndefined, a_path = JUndefined, a_schema = JUndefined,
      a_maxDuration = JUndefined, a_validator = None\<rparr>"

definition assertion_step :: "(probe, nat) assertion \<Rightarrow> (probe, nat) api_step" where
  "assertion_step a =
     \<lparr>s_name = JStr ''check'', s_type = JStr ''assertion'', s_method = JUndefined,
      s_url = JUndefined, s_headers = JUndefined, s_data = JUndefined,
      s_params = JUndefined, s_options = JUndefined, s_responseSchema = JUndefined,
      s_saveAs = JUndefined, s_duration = JUndefined, s_continueOnFailure = JUndefined,
      s_handler = None, s_assertion = Some a\<rparr>"

definition expect_status_200 :: "(probe, nat) api_step" where
  "expect_status_200 = assertion_step (assertion0\<lparr>a_type := JStr ''status'', a_expected := JNum 200\<rparr>)"

definition users_test :: "jsv \<Rightarrow> (probe, nat) api_test" where
  "users_test saveAs =
     \<lparr>t_id = JStr ''api-1'', t_name = JStr ''users'',
      t_steps = Some [get_users\<lparr>s_saveAs := saveAs\<rparr>, expect_status_200]\<rparr>"

text \<open>
  A browser whose world is the log of the operations performed on it. Every operation
  succeeds, except that nothing matches the selector \<^verbatim>\<open>#missing\<close>.
\<close>

definition logged :: "string \<Rightarrow> jsv \<Rightarrow> string list \<Rightarrow> (nat js_error + unit) \<times> string list" where
  "logged name selector w =
     (if selector = JStr ''#missing''
      then (Inl (Foreign (name @ '': Timeout 30000ms exceeded'') 0), w @ [name])
      else (Inr (), w @ [name]))"

definition log_page :: "(string list, nat) page" where
  "log_page =
     \<lparr>p_goto = (\<lambda>url options w. (Inr (), w @ [''goto''])),
      p_click = (\<lambda>selector options. logged ''click'' selector),
      p_fill = (\<lambda>selector v. logged ''fill'' selector),
      p_type = (\<lambda>selector t options. logged ''type'' selector),
      p_waitForSelector = (\<lambda>selector options. logged ''waitForSelector'' selector),
      p_waitForTimeout = (\<lambda>t w. (Inr (), w @ [''waitForTimeout''])),
      p_screenshot = (\<lambda>options w. (Inr ''iVBORw0KGgo='', w @ [''screenshot''])),
      p_textContent = (\<lambda>selector w. (Inr (JStr ''Welcome''), w @ [''textContent''])),
      p_isVisible = (\<lambda>selector w. (Inr (JBool (selector \<noteq> JStr ''#missing'')), w @ [''isVisible''])),
      p_url = (\<lambda>w. (Inr (JStr ''https://app.test/''), w @ [''url''])),
      p_count = (\<lambda>selector w. (Inr (JNum (if selector = JStr ''#missing'' then 0 else 1)),
                               w @ [''count'']))\<rparr>"

definition log_context :: "(string list, nat) browser_context" where
  "log_context =
     \<lparr>newPage = (\<lambda>w. (Inr log_page, w @ [''newPage''])),
      close = (\<lambda>w. (Inr (), w @ [''close'']))\<rparr>"

definition log_browser :: "(string list, nat) browser" where
  "log_browser = \<lparr>newContext = (\<lambda>options w. (Inr log_context, w @ [''newContext'']))\<rparr>"

definition log_env :: "string list core_env" where
  "log_env =
     \<lparr>clock = (\<lambda>w. int (length w)), isoString = show_int,
      emit = (\<lambda>name testResult w. w @ [''emit '' @ name])\<rparr>"

definition ui_step0 :: "(string list, nat) ui_step" where
  "ui_step0 =
     \<lparr>u_name = JUndefined, u_action = JUndefined, u_url = JUndefined, u_waitUntil = JUndefined,
      u_selector = JUndefined, u_options = JUndefined, u_value = JUndefined, u_text = JUndefined,
      u_timeout = JUndefined, u_type = JUndefined, u_expected = JUndefined,
      u_params = JUndefined, u_continueOnFailure = JUndefined,
      u_handler = NotCallable JUndefined\<rparr>"

definition open_home :: "(string list, nat) ui_step" where
  "open_home = ui_step0\<lparr>u_name := JStr ''open'', u_action := JStr ''navigate'',
                         u_url := JStr ''https://app.test/''\<rparr>"

definition click_missing :: "(string list, nat) ui_step" where
  "click_missing = ui_step0\<lparr>u_name := JStr ''press'', u_action := JStr ''click'',
                             u_selector := JStr ''#missing''\<rparr>"

definition fill_name :: "(string list, nat) ui_step" where
  "fill_name = ui_step0\<lparr>u_name := JStr ''name'', u_action := JStr ''fill'',
                         u_selector := JStr ''#name'', u_value := JStr ''Ada''\<rparr>"

definition custom_without_handler :: "(string list, nat) ui_step" where
  "custom_without_handler = ui_step0\<lparr>u_name := JStr ''hook'', u_action := JStr ''custom'',
                                      u_handler := NotCallable (JStr ''cleanup.js'')\<rparr>"

definition ui_test_of :: "(string list, nat) ui_step list option \<Rightarrow> (string list, nat) ui_test" where
  "ui_test_of steps =
     \<lparr>d_id = JStr ''t1'', d_name = JStr ''login'', d_viewport = JUndefined,
      d_userAgent = JUndefined, d_contextOptions = JUndefined, d_steps = steps\<rparr>"

section \<open>Basic facts about property updates\<close>


lemma map_of_set_prop_other: "k' \<noteq> k \<Longrightarrow> map_of (set_prop kvs k v) k' = map_of kvs k'"
  by (induction kvs) auto

section \<open>Properties of the retry controller\<close>

lemma attempt_request_probe:
  "attempt_request (probe_env endpoint validate inh) cfg step config w =
     (attempt_outcome endpoint validate inh cfg step config (Suc (calls w)), w\<lparr>calls := Suc (calls w)\<rparr>)"
  by (auto simp: attempt_request_def attempt_outcome_def client_def probe_env_def Let_def validateStatus_def
      validateResponseSchema_def split: sum.splits prod.splits option.splits)

lemma setTimeout_probe:
  "setTimeout (probe_env endpoint validate inh) d w = w\<lparr>waited := waited w @ [d]\<rparr>"
  by (simp add: probe_env_def)

lemma retry_loop_failures:
  assumes fails: "\<forall>k. calls w < k \<and> k \<le> calls w + j \<longrightarrow>
            attempt_outcome endpoint validate inh cfg step config k = Inl (e k)"
    and bound: "calls w + j \<le> retries cfg"
  shows "retry_loop (probe_env endpoint validate inh) cfg step config (calls w) lastError w =
         retry_loop (probe_env endpoint validate inh) cfg step config (calls w + j)
           (if j = 0 then lastError else Some (e (calls w + j)))
           \<lparr>calls = calls w + j,
            waited = waited w @ map (\<lambda>i. JNum (2 ^ i * baseDelay))
                                  (filter (\<lambda>i. i < retries cfg) [Suc (calls w)..<Suc (calls w + j)])\<rparr>"
  using assms
proof (induction j arbitrary: w lastError)
  case 0
  then show ?case by (cases w) simp
next
  case (Suc j)
  let ?env = "probe_env endpoint validate inh"
  let ?a = "calls w"
  have lt: "?a < retries cfg" using Suc.prems(2) by simp
  have first: "attempt_outcome endpoint validate inh cfg step config (Suc ?a) = Inl (e (Suc ?a))"
    using Suc.prems(1) by simp
  let ?w2 = "(if ?a + 1 < retries cfg
              then setTimeout ?env (JNum (2 ^ (?a + 1) * baseDelay)) (w\<lparr>calls := Suc ?a\<rparr>)
              else w\<lparr>calls := Suc ?a\<rparr>)"
  have step1: "retry_loop ?env cfg step config ?a lastError w =
               retry_loop ?env cfg step config (Suc ?a) (Some (e (Suc ?a))) ?w2"
    using lt first
    by (subst retry_loop.simps) (simp add: attempt_request_probe)
  have c2: "calls ?w2 = Suc ?a" by (simp add: setTimeout_probe)
  have ih: "retry_loop ?env cfg step config (calls ?w2) (Some (e (Suc ?a))) ?w2 =
         retry_loop ?env cfg step config (calls ?w2 + j)
           (if j = 0 then Some (e (Suc ?a)) else Some (e (calls ?w2 + j)))
           \<lparr>calls = calls ?w2 + j,
            waited = waited ?w2 @ map (\<lambda>i. JNum (2 ^ i * baseDelay))
                                  (filter (\<lambda>i. i < retries cfg) [Suc (calls ?w2)..<Suc (calls ?w2 + j)])\<rparr>"
    apply (rule Suc.IH)
    using Suc.prems c2 by auto
  have w2: "waited ?w2 = waited w @ map (\<lambda>i. JNum (2 ^ i * baseDelay)) (filter (\<lambda>i. i < retries cfg) [Suc ?a])"
    by (simp add: setTimeout_probe)
  have split: "[Suc ?a..<Suc (?a + Suc j)] = [Suc ?a] @ [Suc (Suc ?a)..<Suc (Suc ?a + j)]"
    by (simp add: upt_rec)
  show ?case
    unfolding step1 using ih unfolding c2 w2 split
    by (cases j) (auto)
qed

lemma total_delay_backoff:
  "total_delay (backoff_delays m) = (\<Sum>i = 1..m. 2 ^ i * baseDelay)"
proof (induction m)
  case 0
  then show ?case by (simp add: backoff_delays_def)
next
  case (Suc m)
  have app: "total_delay (xs @ [JNum d]) = total_delay xs + d" for xs d
    by (induction xs rule: total_delay.induct) auto
  have "backoff_delays (Suc m) = backoff_delays m @ [JNum (2 ^ Suc m * baseDelay)]"
    by (simp add: backoff_delays_def)
  with Suc show ?case by (simp add: app)
qed

text \<open>
  Claim C2. A work unit that fails on each of its attempts, under a retry budget
  \<open>n \<ge> 1\<close>: the controller runs the work unit exactly \<open>n\<close> times and then throws the
  error of the \<open>n\<close>-th attempt, as it was thrown. (Between the attempts it waits
  \<open>2^i * baseDelay\<close> after the \<open>i\<close>-th failure, for \<open>i < n\<close>.)
\<close>

theorem retry_exhausts_budget:
  assumes "1 \<le> n" and "retries cfg = n"
    and "\<forall>k. 1 \<le> k \<and> k \<le> n \<longrightarrow>
           attempt_outcome endpoint validate inh cfg step (request_config inh step testContext) k
             = Inl (e k)"
  shows "makeRequest (probe_env endpoint validate inh) cfg step testContext probe0 =
           (Inl (Some (e n)), \<lparr>calls = n, waited = backoff_delays (n - 1)\<rparr>)"
proof -
  let ?env = "probe_env endpoint validate inh"
  let ?config = "request_config inh step testContext"
  have "retry_loop ?env cfg step ?config (calls probe0) None probe0 =
        retry_loop ?env cfg step ?config (calls probe0 + n)
          (if n = 0 then None else Some (e (calls probe0 + n)))
          \<lparr>calls = calls probe0 + n,
           waited = waited probe0 @ map (\<lambda>i. JNum (2 ^ i * baseDelay))
                      (filter (\<lambda>i. i < retries cfg) [Suc (calls probe0)..<Suc (calls probe0 + n)])\<rparr>"
    by (rule retry_loop_failures) (use assms in \<open>auto simp: probe0_def\<close>)
  moreover have "filter (\<lambda>i. i < n) [Suc 0..<Suc n] = [Suc 0..<n]"
    by (induction n) auto
  then have "map (\<lambda>i. JNum (2 ^ i * baseDelay)) (filter (\<lambda>i. i < n) [Suc 0..<Suc n])
               = backoff_delays (n - 1)"
    using assms(1) by (cases n) (simp_all add: backoff_delays_def)
  ultimately have "retry_loop ?env cfg step ?config 0 None probe0 =
        retry_loop ?env cfg step ?config n (Some (e n))
          \<lparr>calls = n, waited = backoff_delays (n - 1)\<rparr>"
    using assms(1,2) by (simp add: probe0_def)
  also have "\<dots> = (Inl (Some (e n)), \<lparr>calls = n, waited = backoff_delays (n - 1)\<rparr>)"
    using assms(2) by (subst retry_loop.simps) simp
  finally show ?thesis
    by (simp add: makeRequest_def probe_env_def)
qed

text \<open>
  Claim C3. A work unit that fails on its first \<open>m\<close> attempts and succeeds on attempt
  \<open>m + 1\<close>, with \<open>m\<close> below the retry budget \<open>n\<close>: the controller returns the response of
  that attempt after \<open>m + 1\<close> calls, and the delays it waited are \<open>2^i * baseDelay\<close> for
  \<open>i = 1..m\<close>, which add up to the sum of \<open>2^i * baseDelay\<close> over \<open>i = 1..m\<close>.
\<close>

theorem retry_recovers:
  assumes "m < n" and "retries cfg = n"
    and "\<forall>k. 1 \<le> k \<and> k \<le> m \<longrightarrow>
           attempt_outcome endpoint validate inh cfg step (request_config inh step testContext) k
             = Inl (e k)"
    and "attempt_outcome endpoint validate inh cfg step (request_config inh step testContext) (Suc m)
           = Inr response"
  shows "\<exists>w'. makeRequest (probe_env endpoint validate inh) cfg step testContext probe0 =
                (Inr response, w')
              \<and> calls w' = Suc m
              \<and> waited w' = backoff_delays m
              \<and> total_delay (waited w') = (\<Sum>i = 1..m. 2 ^ i * baseDelay)"
proof -
  let ?env = "probe_env endpoint validate inh"
  let ?config = "request_config inh step testContext"
  have "retry_loop ?env cfg step ?config (calls probe0) None probe0 =
        retry_loop ?env cfg step ?config (calls probe0 + m)
          (if m = 0 then None else Some (e (calls probe0 + m)))
          \<lparr>calls = calls probe0 + m,
           waited = waited probe0 @ map (\<lambda>i. JNum (2 ^ i * baseDelay))
                      (filter (\<lambda>i. i < retries cfg) [Suc (calls probe0)..<Suc (calls probe0 + m)])\<rparr>"
    by (rule retry_loop_failures) (use assms in \<open>auto simp: probe0_def\<close>)
  moreover have "filter (\<lambda>i. i < n) [Suc 0..<Suc m] = [Suc 0..<Suc m]"
    using assms(1) by (auto simp: filter_id_conv)
  then have "map (\<lambda>i. JNum (2 ^ i * baseDelay)) (filter (\<lambda>i. i < n) [Suc 0..<Suc m])
               = backoff_delays m"
    by (simp add: backoff_delays_def)
  ultimately have "retry_loop ?env cfg step ?config 0 None probe0 =
        retry_loop ?env cfg step ?config m (if m = 0 then None else Some (e m))
          \<lparr>calls = m, waited = backoff_delays m\<rparr>"
    using assms(2) by (simp add: probe0_def)
  also have "\<dots> = (Inr response, \<lparr>calls = Suc m, waited = backoff_delays m\<rparr>)"
    using assms(1,2,4) by (subst retry_loop.simps) (simp add: attempt_request_probe)
  finally have "makeRequest ?env cfg step testContext probe0 =
                  (Inr response, \<lparr>calls = Suc m, waited = backoff_delays m\<rparr>)"
    by (simp add: makeRequest_def probe_env_def)
  then show ?thesis
    by (simp add: total_delay_backoff)
qed

lemmas scenario_defs = attempt_outcome_def attempt_request_def client_def probe_env_def
  validateStatus_def validateResponseSchema_def default_config_def get_users_def
  always_down_def down_twice_def flaky_500_def response_of_def no_schema_def Let_def

theorem retry_exhausts_budget_witness:
  "makeRequest (probe_env always_down no_schema standard_members) default_config get_users [] probe0 =
     (Inl (Some (Foreign ''connect ECONNREFUSED'' 3)), \<lparr>calls = 3, waited = [JNum 2000, JNum 4000]\<rparr>)"
  using retry_exhausts_budget [of 3 default_config always_down no_schema standard_members get_users
          "[]" "\<lambda>k. Foreign ''connect ECONNREFUSED'' k"]
  by (simp add: scenario_defs backoff_delays_def baseDelay_def upt_rec)

theorem retry_recovers_witness:
  "\<exists>w'. makeRequest (probe_env down_twice no_schema standard_members) default_config get_users []
            probe0 =
           (Inr (response_of 200 (JArr []) @ [(''metadata'', JObj [(''duration'', JNum 0)])]), w')
         \<and> calls w' = 3
         \<and> waited w' = [JNum 2000, JNum 4000]
         \<and> total_delay (waited w') = 2 ^ 1 * 1000 + 2 ^ 2 * 1000"
proof -
  let ?r = "response_of 200 (JArr []) @ [(''metadata'', JObj [(''duration'', JNum 0)])]"
  have "\<exists>w'. makeRequest (probe_env down_twice no_schema standard_members) default_config
                 get_users [] probe0 = (Inr ?r, w')
              \<and> calls w' = Suc 2
              \<and> waited w' = backoff_delays 2
              \<and> total_delay (waited w') = (\<Sum>i = 1..2. 2 ^ i * baseDelay)"
    by (rule retry_recovers [where n = 3 and e = "\<lambda>k. Foreign ''socket hang up'' k"])
       (auto simp: scenario_defs)
  moreover have "backoff_delays 2 = [JNum 2000, JNum 4000]"
    by (simp add: backoff_delays_def baseDelay_def upt_rec)
  ultimately show ?thesis
    by auto
qed

section \<open>A received HTTP status is a result, not a failure\<close>








section \<open>Properties of the core engine\<close>







lemmas ui_scenario_defs = log_page_def log_context_def log_browser_def log_env_def ui_step0_def
  open_home_def click_missing_def fill_name_def custom_without_handler_def ui_test_of_def
  logged_def executeStep_def dispatch_def without_value_def blocking_def or_else_def


text \<open>The operations performed in that run, in order: the third step never runs.\<close>

lemma blocked_run_log:
  "snd (executeTest log_env log_browser ''chromium''
          (ui_test_of (Some [open_home, click_missing, fill_name])) []) =
     [''newContext'', ''newPage'', ''goto'', ''click'', ''screenshot'', ''close'',
      ''emit testCompleted'']"
  by (simp add: ui_scenario_defs executeTest_def initial_result_def Let_def)

text \<open>
  Claim C5. A test definition whose \<^verbatim>\<open>steps\<close> are absent or empty: \<^verbatim>\<open>executeTest\<close>
  yields an outcome with status \<^verbatim>\<open>passed\<close> and an empty step list. (The outcome exists
  when the browser hands out a context and a page and the context can be closed.)
\<close>

theorem no_steps_passes:
  assumes "newContext browser (context_options test) w = (Inr ctx, w1)"
    and "newPage ctx w1 = (Inr page, w2)"
    and "d_steps test = None \<or> d_steps test = Some []"
    and "fst (close ctx w2) = Inr ()"
  shows "\<exists>tr wf. executeTest env browser browserType test w = (Inr tr, wf)
           \<and> tr_status tr = Passed \<and> tr_steps tr = []"
proof -
  obtain w5 where "close ctx w2 = (Inr (), w5)"
    using assms(4) by (metis prod.collapse)
  with assms(1,2,3) show ?thesis
    by (auto simp: executeTest_def Let_def initial_result_def)
qed

theorem no_steps_passes_witness:
  "\<exists>tr wf. executeTest log_env log_browser ''webkit'' (ui_test_of None) [] = (Inr tr, wf)
     \<and> tr_status tr = Passed \<and> tr_steps tr = []"
  by (rule no_steps_passes [where ctx = log_context and ?w1.0 = "[''newContext'']"
        and page = log_page and ?w2.0 = "[''newContext'', ''newPage'']"])
     (simp_all add: ui_scenario_defs)

text \<open>
  Claim C10. A step with action \<^verbatim>\<open>custom\<close> whose \<^verbatim>\<open>handler\<close> is absent or is not a
  function: \<^verbatim>\<open>executeStep\<close> calls nothing (the world is left as it was) and returns a
  step outcome with status \<^verbatim>\<open>passed\<close> and no error.
\<close>

theorem custom_without_handler_passes:
  assumes "u_action step = JStr ''custom''" and "u_handler step = NotCallable v"
  shows "executeStep env page step w =
           (\<lparr>sr_name = u_name step, sr_action = JStr ''custom'',
             sr_startTime = isoString env (clock env w), sr_status = Passed,
             sr_endTime = Some (isoString env (clock env w)), sr_error = None,
             sr_screenshot = None\<rparr>, w)"
  using assms by (simp add: executeStep_def dispatch_def)

theorem custom_without_handler_passes_witness:
  "executeStep log_env log_page custom_without_handler [''newContext'', ''newPage''] =
     (\<lparr>sr_name = JStr ''hook'', sr_action = JStr ''custom'', sr_startTime = ''2'',
       sr_status = Passed, sr_endTime = Some ''2'', sr_error = None, sr_screenshot = None\<rparr>,
      [''newContext'', ''newPage''])"
  using custom_without_handler_passes [of custom_without_handler "JStr ''cleanup.js''" log_env log_page
          "[''newContext'', ''newPage'']"]
  by (simp add: custom_without_handler_def ui_step0_def log_env_def show_int_def)

section \<open>Properties of the load-test ramp-up\<close>





section \<open>The subject of an assertion without a target\<close>

text \<open>
  Claim C8 on the code. A request whose response is captured (here under the name
  \<^verbatim>\<open>users\<close>) is followed by a status assertion that names no target. The assertion
  reads the slot \<^verbatim>\<open>lastResponse\<close> of the test context, but no request writes that
  slot: the assertion finds no response and the test fails, although the response just
  captured has the expected status.
\<close>

theorem unnamed_target_finds_no_response:
  "map_of (fst (runAPITest (probe_env always_ok no_schema standard_members) default_config
                  (users_test (JStr ''users'')) probe0)) ''status'' = Some (JStr ''failed'')
   \<and> map_of (fst (runAPITest (probe_env always_ok no_schema standard_members) default_config
                  (users_test (JStr ''users'')) probe0)) ''error''
       = Some (JStr ''Step failed: No response found for assertion target: undefined'')"
  by code_simp

text \<open>
  The slot is read: the same test passes when the request itself is saved under the
  name \<^verbatim>\<open>lastResponse\<close>. And a request step writes no slot but the one its
  \<^verbatim>\<open>saveAs\<close> names.
\<close>

lemma named_slot_is_read:
  "map_of (fst (runAPITest (probe_env always_ok no_schema standard_members) default_config
                  (users_test (JStr ''lastResponse'')) probe0)) ''status'' = Some (JStr ''passed'')"
  by code_simp

lemma request_leaves_lastResponse:
  assumes "s_type step = JStr ''request''" and "to_string (s_saveAs step) \<noteq> ''lastResponse''"
  shows "map_of (fst (snd (executeAPIStep env cfg step testContext w))) ''lastResponse''
           = map_of testContext ''lastResponse''"
  using assms
  by (auto simp: executeAPIStep_def step_body_def Let_def map_of_set_prop_other
      split: prod.splits sum.splits option.splits)

section \<open>Properties of body assertions\<close>





lemma split_dot_user_id: "split_dot ''user.id'' = [''user'', ''id'']"
  by simp




section \<open>Properties of interpolation\<close>

lemma brace_not_word: "\<not> is_word_char CHR ''{''" "\<not> is_word_char CHR ''}''"
  by (simp_all add: is_word_char_def)

lemma match_placeholder_iff:
  "match_placeholder s = Some (key, rest) \<longleftrightarrow> is_identifier key \<and> s = placeholder key @ rest"
proof
  assume m: "match_placeholder s = Some (key, rest)"
  let ?t = "drop 2 s"
  from m have s2: "take 2 s = ''{{''" and key: "key = takeWhile is_word_char ?t"
    and ne: "key \<noteq> []" and cl: "take 2 (dropWhile is_word_char ?t) = ''}}''"
    and rest: "rest = drop 2 (dropWhile is_word_char ?t)"
    by (auto simp: match_placeholder_def Let_def split: if_splits)
  have "s = take 2 s @ ?t" by simp
  also have "?t = takeWhile is_word_char ?t @ dropWhile is_word_char ?t" by simp
  also have "dropWhile is_word_char ?t = take 2 (dropWhile is_word_char ?t) @ rest"
    by (simp add: rest)
  finally have "s = ''{{'' @ key @ ''}}'' @ rest"
    using s2 key cl by (metis append.assoc)
  moreover have "list_all is_word_char key"
    unfolding key by (simp add: list_all_iff) (meson set_takeWhileD)
  ultimately show "is_identifier key \<and> s = placeholder key @ rest"
    using ne by (simp add: is_identifier_def placeholder_def)
next
  assume "is_identifier key \<and> s = placeholder key @ rest"
  then have ne: "key \<noteq> []" and w: "\<forall>c \<in> set key. is_word_char c"
    and s: "s = ''{{'' @ key @ ''}}'' @ rest"
    by (auto simp: is_identifier_def placeholder_def list_all_iff)
  have tw: "takeWhile is_word_char (key @ CHR ''}'' # CHR ''}'' # rest) = key"
    using w by (simp add: takeWhile_append2 brace_not_word)
  have dw: "dropWhile is_word_char (key @ CHR ''}'' # CHR ''}'' # rest) = CHR ''}'' # CHR ''}'' # rest"
    using w by (simp add: dropWhile_append2 brace_not_word)
  show "match_placeholder s = Some (key, rest)"
    using ne by (simp add: match_placeholder_def s tw dw Let_def)
qed

lemma contains_placeholder_iff:
  "contains_placeholder s \<longleftrightarrow>
     (\<exists>pre key post. is_identifier key \<and> s = pre @ placeholder key @ post)"
proof (induction s)
  case Nil
  then show ?case by (simp add: placeholder_def)
next
  case (Cons c cs)
  show ?case
  proof
    assume "contains_placeholder (c # cs)"
    then consider "match_placeholder (c # cs) \<noteq> None" | "contains_placeholder cs" by auto
    then show "\<exists>pre key post. is_identifier key \<and> c # cs = pre @ placeholder key @ post"
    proof cases
      case 1
      then obtain key rest where "match_placeholder (c # cs) = Some (key, rest)" by auto
      then have "is_identifier key \<and> c # cs = [] @ placeholder key @ rest"
        by (simp add: match_placeholder_iff)
      then show ?thesis by blast
    next
      case 2
      with Cons.IH obtain pre key post where "is_identifier key" "cs = pre @ placeholder key @ post"
        by blast
      then have "is_identifier key \<and> c # cs = (c # pre) @ placeholder key @ post" by simp
      then show ?thesis by blast
    qed
  next
    assume "\<exists>pre key post. is_identifier key \<and> c # cs = pre @ placeholder key @ post"
    then obtain pre key post where k: "is_identifier key" and e: "c # cs = pre @ placeholder key @ post"
      by blast
    show "contains_placeholder (c # cs)"
    proof (cases pre)
      case Nil
      with k e have "match_placeholder (c # cs) = Some (key, post)"
        by (simp add: match_placeholder_iff)
      then show ?thesis by simp
    next
      case (Cons d pre')
      with e have "cs = pre' @ placeholder key @ post" by simp
      with k Cons.IH have "contains_placeholder cs" by blast
      then show ?thesis by simp
    qed
  qed
qed
















lemma all_entries_keys:
  "all_entries f es = Some ts \<Longrightarrow> map fst ts = map fst es"
  by (induction es arbitrary: ts) (auto split: option.splits)










lemma heap_example:
  "interpolate_heap 3 standard_members [(''id'', JNum 42)] (HRef 1)
     [ArrayCell [HStr ''{{id}}''], ObjectCell [(''url'', HStr ''/u/{{id}}''), (''tags'', HRef 0)]] =
   Some (HRef 2,
     [ArrayCell [HStr ''{{id}}''], ObjectCell [(''url'', HStr ''/u/{{id}}''), (''tags'', HRef 0)],
      ObjectCell [(''url'', HStr ''/u/42''), (''tags'', HRef 3)], ArrayCell [HStr ''42'']])"
  by code_simp



end
